theory Spec2Isabelle
  imports Main "HOL-Library.Word" "HOL-Library.Log_Nat"
begin

section \<open>Errors as values\<close>

text \<open>
  The notebook \<^verbatim>\<open>03-JaxParallelization.ipynb\<close> calls the array library for every
  operation. A call that raises in Python returns \<open>Inl\<close> of the exception here; the
  string is the exception's message.
\<close>

datatype error = TypeError string | ValueError string

definition ebind :: "error + 'a \<Rightarrow> ('a \<Rightarrow> error + 'b) \<Rightarrow> error + 'b" where
  "ebind m f = (case m of Inl e \<Rightarrow> Inl e | Inr v \<Rightarrow> f v)"

fun emap :: "('a \<Rightarrow> error + 'b) \<Rightarrow> 'a list \<Rightarrow> error + 'b list" where
  "emap f [] = Inr []"
| "emap f (x # xs) = ebind (f x) (\<lambda>y. ebind (emap f xs) (\<lambda>ys. Inr (y # ys)))"

section \<open>Array elements: int32 and float32\<close>

text \<open>
  The library's default element types are 32-bit: the notebook's recorded outputs show
  \<^verbatim>\<open>dtype=int32\<close> and \<^verbatim>\<open>dtype=float32\<close>. An int32 is a \<open>32 word\<close> read as signed. A
  finite float32 is the rational it denotes, and every float operation rounds its exact
  result to the nearest value with a 24-bit significand, ties to even. Infinities, NaN
  and the sign of zero are outside the model; a result beyond the largest finite
  float32 stays the rounded rational, and a result below the least normal float32 is
  kept where the library's kernels may flush it to zero. A product inside a dot product
  or an index summation is rounded before it is added, where the library's kernels may
  fuse the two. On the notebook's inputs the model gives the outputs the notebook
  records, digit for digit.
\<close>

definition pow2 :: "int \<Rightarrow> rat" where
  "pow2 e = (if 0 \<le> e then 2 ^ nat e else 1 / 2 ^ nat (- e))"

text \<open>\<open>ilog2 x\<close> is the exponent \<open>e\<close> with \<open>2^e \<le> x < 2^(e+1)\<close>, for \<open>x > 0\<close>.\<close>

definition ilog2 :: "rat \<Rightarrow> int" where
  "ilog2 x = (if 1 \<le> x then bitlen \<lfloor>x\<rfloor> - 1 else - bitlen (\<lceil>1 / x\<rceil> - 1))"

definition round_half_even :: "rat \<Rightarrow> int" where
  "round_half_even m =
     (let f = \<lfloor>m\<rfloor>; r = m - of_int f
      in if r < 1 / 2 then f else if 1 / 2 < r then f + 1
         else if even f then f else f + 1)"

text \<open>
  Rounding to a binary format with \<open>p\<close> significand bits and least normal exponent
  \<open>emin\<close> (below it the spacing stays that of the subnormals).
\<close>

definition round_bin :: "nat \<Rightarrow> int \<Rightarrow> rat \<Rightarrow> rat" where
  "round_bin p emin x =
     (if x = 0 then 0
      else let e = max (ilog2 \<bar>x\<bar>) emin; q = pow2 (e - int p + 1)
           in of_int (round_half_even (x / q)) * q)"

definition rnd32 :: "rat \<Rightarrow> rat" where
  "rnd32 = round_bin 24 (- 126)"

definition rnd64 :: "rat \<Rightarrow> rat" where
  "rnd64 = round_bin 53 (- 1022)"

datatype num = I "32 word" | F rat

definition to_f32 :: "num \<Rightarrow> rat" where
  "to_f32 v = (case v of I w \<Rightarrow> rnd32 (of_int (sint w)) | F r \<Rightarrow> r)"

text \<open>
  Type promotion: two int32 give an int32 (wrapping); as soon as one operand is a
  float, both are taken as float32 and the result is a float32.
\<close>

definition add_num :: "num \<Rightarrow> num \<Rightarrow> num" where
  "add_num a b =
     (case (a, b) of (I x, I y) \<Rightarrow> I (x + y) | _ \<Rightarrow> F (rnd32 (to_f32 a + to_f32 b)))"

definition mul_num :: "num \<Rightarrow> num \<Rightarrow> num" where
  "mul_num a b =
     (case (a, b) of (I x, I y) \<Rightarrow> I (x * y) | _ \<Rightarrow> F (rnd32 (to_f32 a * to_f32 b)))"

section \<open>Arrays\<close>

text \<open>
  An array is a scalar or a list of arrays of one shape. \<open>shape\<close> reads the extents
  along the first item of every level, as the library's arrays are rectangular.
\<close>

datatype ndarray = Num num | Arr "ndarray list"

fun shape :: "ndarray \<Rightarrow> nat list" where
  "shape (Num v) = []"
| "shape (Arr []) = [0]"
| "shape (Arr (x # xs)) = Suc (length xs) # shape x"

definition ndim :: "ndarray \<Rightarrow> nat" where
  "ndim a = length (shape a)"

definition items :: "ndarray \<Rightarrow> ndarray list" where
  "items a = (case a of Num v \<Rightarrow> [] | Arr xs \<Rightarrow> xs)"

text \<open>
  Python literals as the notebook writes them. A Python float is a double: the decimal
  literal is rounded to 53 bits first, and \<^verbatim>\<open>jnp.array\<close> rounds that to float32. An
  integer literal becomes an int32; the notebook's integers are small, and one that does
  not fit would wrap here where the library refuses it. The notebook's lists are
  rectangular and of one element type.
\<close>

datatype literal = LInt int | LFloat rat | LList "literal list"

fun jnp_array :: "literal \<Rightarrow> ndarray" where
  "jnp_array (LInt i) = Num (I (word_of_int i))"
| "jnp_array (LFloat r) = Num (F (rnd32 (rnd64 r)))"
| "jnp_array (LList xs) = Arr (map jnp_array xs)"

subsection \<open>Printing a shape\<close>

fun show_nat :: "nat \<Rightarrow> string" where
  "show_nat n =
     (if n < 10 then [''0123456789'' ! n]
      else show_nat (n div 10) @ [''0123456789'' ! (n mod 10)])"

declare show_nat.simps [simp del]

fun commas :: "string list \<Rightarrow> string" where
  "commas [] = []"
| "commas [s] = s"
| "commas (s # t # ss) = s @ '', '' @ commas (t # ss)"

text \<open>Python prints a tuple as \<^verbatim>\<open>()\<close>, \<^verbatim>\<open>(3,)\<close>, \<^verbatim>\<open>(3, 2)\<close>.\<close>

definition show_shape :: "nat list \<Rightarrow> string" where
  "show_shape s =
     (case s of [n] \<Rightarrow> ''('' @ show_nat n @ '',)''
      | _ \<Rightarrow> ''('' @ commas (map show_nat s) @ '')'')"

subsection \<open>Element-wise operations with broadcasting\<close>

text \<open>Applying an operation to the elements of two arrays of one shape.\<close>

lemma size_item: "x \<in> set xs \<Longrightarrow> size x < Suc (size_list size xs)"
  by (induction xs) auto

function map2_nd :: "(num \<Rightarrow> num \<Rightarrow> num) \<Rightarrow> ndarray \<Rightarrow> ndarray \<Rightarrow> ndarray" where
  "map2_nd op (Num a) (Num b) = Num (op a b)"
| "map2_nd op (Arr xs) b = Arr (map (\<lambda>(x, y). map2_nd op x y) (zip xs (items b)))"
| "map2_nd op (Num a) (Arr ys) = Num a"
  by pat_completeness auto
termination
  by (relation "measure (\<lambda>(op, a, b). size a)") (auto dest: set_zip_leftD size_item)

text \<open>
  Shapes are aligned at their last axis; two extents are compatible when they are equal
  or one of them is 1.
\<close>

fun broadcast_dims :: "nat list \<Rightarrow> nat list \<Rightarrow> nat list option" where
  "broadcast_dims [] ys = Some ys"
| "broadcast_dims (x # xs) [] = Some (x # xs)"
| "broadcast_dims (x # xs) (y # ys) =
     (if x = y \<or> y = 1 then map_option ((#) x) (broadcast_dims xs ys)
      else if x = 1 then map_option ((#) y) (broadcast_dims xs ys)
      else None)"

definition broadcast_shapes :: "nat list \<Rightarrow> nat list \<Rightarrow> nat list option" where
  "broadcast_shapes s t = map_option rev (broadcast_dims (rev s) (rev t))"

fun broadcast_to :: "nat list \<Rightarrow> ndarray \<Rightarrow> ndarray" where
  "broadcast_to [] a = a"
| "broadcast_to (n # s) a =
     (if ndim a < Suc (length s) then Arr (replicate n (broadcast_to s a))
      else case a of
             Num v \<Rightarrow> a
           | Arr xs \<Rightarrow>
               (case xs of [x] \<Rightarrow> Arr (replicate n (broadcast_to s x))
                | _ \<Rightarrow> Arr (map (broadcast_to s) xs)))"

text \<open>
  Operands of different rank are first brought to one rank, and shapes that do not fit
  are a ValueError there; operands of one rank that do not fit are a TypeError of the
  operation itself.
\<close>

definition binop :: "string \<Rightarrow> (num \<Rightarrow> num \<Rightarrow> num) \<Rightarrow> ndarray \<Rightarrow> ndarray \<Rightarrow> error + ndarray" where
  "binop name op a b =
     (case broadcast_shapes (shape a) (shape b) of
        None \<Rightarrow>
          if ndim a \<noteq> ndim b
          then Inl (ValueError (''Incompatible shapes for broadcasting: shapes=[''
                      @ show_shape (shape a) @ '', '' @ show_shape (shape b) @ '']''))
          else Inl (TypeError (name @ '' got incompatible shapes for broadcasting: ''
                      @ show_shape (shape a) @ '', '' @ show_shape (shape b) @ ''.''))
      | Some s \<Rightarrow> Inr (map2_nd op (broadcast_to s a) (broadcast_to s b)))"

definition add :: "ndarray \<Rightarrow> ndarray \<Rightarrow> error + ndarray" where
  "add = binop ''add'' add_num"

definition mul :: "ndarray \<Rightarrow> ndarray \<Rightarrow> error + ndarray" where
  "mul = binop ''mul'' mul_num"

subsection \<open>Taking an array apart along an axis, and putting slices together\<close>

text \<open>
  \<open>unstack k a\<close> lists the slices \<^verbatim>\<open>a[:, .., i, ..]\<close> of \<open>a\<close> along axis \<open>k\<close> (for
  \<open>k < ndim a\<close>); \<open>stack k ys\<close> is the array whose slices along axis \<open>k\<close> are \<open>ys\<close>.
\<close>

fun unstack :: "nat \<Rightarrow> ndarray \<Rightarrow> ndarray list" where
  "unstack k (Num v) = []"
| "unstack 0 (Arr xs) = xs"
| "unstack (Suc k) (Arr xs) = map Arr (transpose (map (unstack k) xs))"

fun stack :: "nat \<Rightarrow> ndarray list \<Rightarrow> ndarray" where
  "stack 0 ys = Arr ys"
| "stack (Suc k) ys = Arr (map (stack k) (transpose (map items ys)))"

text \<open>\<^verbatim>\<open>a.T\<close> reverses the axes: \<^verbatim>\<open>a.T[.., i] = a[i].T\<close>.\<close>

fun T :: "ndarray \<Rightarrow> ndarray" where
  "T (Num v) = Num v"
| "T (Arr xs) = stack (ndim (Arr xs) - 1) (map T xs)"

subsection \<open>The dot product\<close>

fun sum_nd :: "ndarray list \<Rightarrow> ndarray" where
  "sum_nd [] = Num (F 0)"
| "sum_nd (t # ts) = foldl (map2_nd add_num) t ts"

text \<open>
  The products of the elements \<open>xs\<close> of a vector with the slices \<open>bs\<close> of the other
  operand, summed from left to right.
\<close>

definition contract :: "ndarray list \<Rightarrow> ndarray list \<Rightarrow> ndarray" where
  "contract xs bs =
     sum_nd (map (\<lambda>(x, b). map2_nd mul_num (broadcast_to (shape b) x) b) (zip xs bs))"

fun dot_last :: "ndarray \<Rightarrow> ndarray list \<Rightarrow> ndarray" where
  "dot_last (Num v) bs = Num v"
| "dot_last (Arr xs) bs =
     (if list_all (\<lambda>x. ndim x = 0) xs then contract xs bs
      else Arr (map (\<lambda>x. dot_last x bs) xs))"

text \<open>
  \<^verbatim>\<open>lax.dot_general\<close> with one contracting axis on each side and no batch axes: the
  result is indexed by the free axes of \<open>a\<close>, then by those of \<open>b\<close>.
\<close>

definition dot_general :: "ndarray \<Rightarrow> ndarray \<Rightarrow> nat \<times> nat \<Rightarrow> error + ndarray" where
  "dot_general a b dims =
     (case dims of (ca, cb) \<Rightarrow>
        if shape a ! ca \<noteq> shape b ! cb
        then Inl (TypeError (''dot_general requires contracting dimensions to have the same shape, got (''
               @ show_nat (shape a ! ca) @ '',) and ('' @ show_nat (shape b ! cb) @ '',).''))
        else Inr (dot_last (stack (ndim a - 1) (unstack ca a)) (unstack cb b)))"

text \<open>
  \<^verbatim>\<open>lax.dot\<close> takes vectors and matrices only, and wants the last extent of the left
  operand to be the first extent of the right one.
\<close>

definition lax_dot :: "ndarray \<Rightarrow> ndarray \<Rightarrow> error + ndarray" where
  "lax_dot lhs rhs =
     (if 1 \<le> ndim lhs \<and> ndim lhs \<le> 2 \<and> 1 \<le> ndim rhs \<and> ndim rhs \<le> 2
         \<and> last (shape lhs) = hd (shape rhs)
      then dot_general lhs rhs (ndim lhs - 1, 0)
      else Inl (TypeError (''Incompatible shapes for dot: got '' @ show_shape (shape lhs)
                  @ '' and '' @ show_shape (shape rhs) @ ''.'')))"

text \<open>\<^verbatim>\<open>a.dot(b)\<close>, that is \<^verbatim>\<open>jnp.dot(a, b)\<close>.\<close>

definition dot :: "ndarray \<Rightarrow> ndarray \<Rightarrow> error + ndarray" where
  "dot a b =
     (if ndim a = 0 \<or> ndim b = 0 then mul a b
      else if max (ndim a) (ndim b) \<le> 2 then lax_dot a b
      else if ndim b = 1 then dot_general a b (ndim a - 1, 0)
      else dot_general a b (ndim a - 1, ndim b - 2))"

section \<open>The dense layer and its batched rewritings\<close>

text \<open>
  \<^verbatim>\<open>
  def dense_layer(x):
      W = jnp.array([[0.2,0.4],[0.9,0.2]])
      b = jnp.array([0.2,0.3])
      return W.dot(x) + b
  \<close>
\<close>

definition dense_layer :: "ndarray \<Rightarrow> error + ndarray" where
  "dense_layer x =
     (let W = jnp_array (LList [LList [LFloat (2 / 10), LFloat (4 / 10)],
                                LList [LFloat (9 / 10), LFloat (2 / 10)]]);
          b = jnp_array (LList [LFloat (2 / 10), LFloat (3 / 10)])
      in ebind (dot W x) (\<lambda>d. add d b))"

text \<open>
  \<^verbatim>\<open>
  def transpose_layer(x):
      W = jnp.array([[0.2,0.4],[0.9,0.2]])
      b = jnp.array([0.2,0.3])
      return x.dot(W.T) + b
  \<close>
\<close>

definition transpose_layer :: "ndarray \<Rightarrow> error + ndarray" where
  "transpose_layer x =
     (let W = jnp_array (LList [LList [LFloat (2 / 10), LFloat (4 / 10)],
                                LList [LFloat (9 / 10), LFloat (2 / 10)]]);
          b = jnp_array (LList [LFloat (2 / 10), LFloat (3 / 10)])
      in ebind (dot x (T W)) (\<lambda>d. add d b))"

text \<open>The two inputs the notebook binds to \<^verbatim>\<open>inputs\<close>: one vector, then a batch of three.\<close>

definition inputs_single :: ndarray where
  "inputs_single = jnp_array (LList [LFloat (11 / 10), LFloat (12 / 10)])"

definition inputs :: ndarray where
  "inputs = jnp_array (LList [LList [LFloat (11 / 10), LFloat (12 / 10)],
                              LList [LFloat (21 / 10), LFloat (22 / 10)],
                              LList [LFloat (31 / 10), LFloat (32 / 10)]])"

text \<open>
  \<^verbatim>\<open>
  try:
      dense_layer(inputs)
  except TypeError as exc:
      print(exc)
  \<close>
  The cell's result is the lines it prints, or the exception that leaves it.
\<close>

definition try_dense_layer :: "error + string list" where
  "try_dense_layer =
     (case dense_layer inputs of
        Inr v \<Rightarrow> Inr []
      | Inl (TypeError exc) \<Rightarrow> Inr [exc]
      | Inl (ValueError m) \<Rightarrow> Inl (ValueError m))"

section \<open>Index summation\<close>

text \<open>
  \<^verbatim>\<open>jnp.einsum\<close> with two operands and an explicit result, as in \<^verbatim>\<open>'ij,bj->bi'\<close>: every
  letter names an axis, each operand needs as many letters as it has axes, a letter has
  one extent wherever it stands, and the letters absent from the result are summed over.
\<close>

definition parse_subscripts :: "string \<Rightarrow> (string \<times> string \<times> string) option" where
  "parse_subscripts s =
     (let l1 = takeWhile (\<lambda>c. c \<noteq> CHR '','') s;
          r = drop (Suc (length l1)) s;
          l2 = takeWhile (\<lambda>c. c \<noteq> CHR ''-'') r;
          arrow = take 2 (drop (length l2) r);
          lo = drop (length l2 + 2) r
      in if length l1 < length s \<and> arrow = ''->'' then Some (l1, l2, lo) else None)"

text \<open>The extents that disagree with an earlier extent of the same letter.\<close>

fun size_clashes :: "(char \<times> nat) list \<Rightarrow> (char \<times> nat) list" where
  "size_clashes [] = []"
| "size_clashes ((c, n) # rest) =
     filter (\<lambda>(d, m). d = c \<and> m \<noteq> n) rest @ size_clashes rest"

definition lookup :: "(char \<times> nat) list \<Rightarrow> char \<Rightarrow> nat" where
  "lookup env c = (case map_of env c of None \<Rightarrow> 0 | Some n \<Rightarrow> n)"

fun get :: "ndarray \<Rightarrow> nat list \<Rightarrow> ndarray" where
  "get a [] = a"
| "get a (i # idx) = get (items a ! i) idx"

text \<open>All assignments of positions to the letters \<open>cs\<close>, the last letter running fastest.\<close>

fun assignments :: "(char \<times> nat) list \<Rightarrow> string \<Rightarrow> (char \<times> nat) list list" where
  "assignments sizes [] = [[]]"
| "assignments sizes (c # cs) =
     concat (map (\<lambda>k. map ((#) (c, k)) (assignments sizes cs)) [0..<lookup sizes c])"

fun sum_num :: "num list \<Rightarrow> num" where
  "sum_num [] = F 0"
| "sum_num (t # ts) = foldl add_num t ts"

definition scalar_of :: "ndarray \<Rightarrow> num" where
  "scalar_of a = (case a of Num v \<Rightarrow> v | Arr xs \<Rightarrow> F 0)"

definition einsum_entry ::
  "(char \<times> nat) list \<Rightarrow> string \<Rightarrow> string \<Rightarrow> string \<Rightarrow> ndarray \<Rightarrow> ndarray
     \<Rightarrow> (char \<times> nat) list \<Rightarrow> ndarray" where
  "einsum_entry sizes l1 l2 summed a b env =
     Num (sum_num (map (\<lambda>e. mul_num (scalar_of (get a (map (lookup (e @ env)) l1)))
                                   (scalar_of (get b (map (lookup (e @ env)) l2))))
                   (assignments sizes summed)))"

fun einsum_build ::
  "(char \<times> nat) list \<Rightarrow> ((char \<times> nat) list \<Rightarrow> ndarray) \<Rightarrow> string
     \<Rightarrow> (char \<times> nat) list \<Rightarrow> ndarray" where
  "einsum_build sizes entry [] env = entry env"
| "einsum_build sizes entry (c # cs) env =
     Arr (map (\<lambda>k. einsum_build sizes entry cs ((c, k) # env)) [0..<lookup sizes c])"

definition einsum :: "string \<Rightarrow> ndarray \<Rightarrow> ndarray \<Rightarrow> error + ndarray" where
  "einsum subscripts a b =
     (case parse_subscripts subscripts of
        None \<Rightarrow> Inl (ValueError ''Invalid einsum subscripts'')
      | Some (l1, l2, lo) \<Rightarrow>
          if length l1 \<noteq> ndim a
          then Inl (ValueError (''Einstein sum subscript '' @ [CHR 0x27] @ l1 @ [CHR 0x27]
                 @ '' does not contain the correct number of indices for operand 0.''))
          else if length l2 \<noteq> ndim b
          then Inl (ValueError (''Einstein sum subscript '' @ [CHR 0x27] @ l2 @ [CHR 0x27]
                 @ '' does not contain the correct number of indices for operand 1.''))
          else
            let sizes = zip l1 (shape a) @ zip l2 (shape b) in
            if size_clashes sizes \<noteq> []
            then Inl (ValueError ''Size of label does not match previous terms'')
            else if \<not> list_all (\<lambda>c. c \<in> set (l1 @ l2)) lo
            then Inl (ValueError ''einsum output subscript did not appear in the inputs'')
            else
              let summed = filter (\<lambda>c. c \<notin> set lo) (remdups (l1 @ l2))
              in Inr (einsum_build sizes (einsum_entry sizes l1 l2 summed a b) lo []))"

text \<open>
  \<^verbatim>\<open>
  def einsum_layer(x):
      W = jnp.array([[0.2,0.4],[0.9,0.2]])
      b = jnp.array([0.2,0.3])
      return jnp.einsum('ij,bj->bi',W,x) + b
  \<close>
\<close>

definition einsum_layer :: "ndarray \<Rightarrow> error + ndarray" where
  "einsum_layer x =
     (let W = jnp_array (LList [LList [LFloat (2 / 10), LFloat (4 / 10)],
                                LList [LFloat (9 / 10), LFloat (2 / 10)]]);
          b = jnp_array (LList [LFloat (2 / 10), LFloat (3 / 10)])
      in ebind (einsum ''ij,bj->bi'' W x) (\<lambda>d. add d b))"

section \<open>The batching transform\<close>

text \<open>
  \<^verbatim>\<open>jax.vmap(f, in_axes, out_axes)\<close> calls \<open>f\<close> on every slice of its arguments along
  the axis \<open>in_axes\<close> names for each (an argument marked \<open>None\<close> is passed whole to
  every call), and puts the results together along axis \<open>out_axes\<close>.
\<close>

definition split_arg :: "nat option \<Rightarrow> ndarray \<Rightarrow> error + ndarray list option" where
  "split_arg ax a =
     (case ax of
        None \<Rightarrow> Inr None
      | Some k \<Rightarrow>
          if k < ndim a then Inr (Some (unstack k a))
          else Inl (ValueError (''vmap was requested to map its argument along axis ''
                 @ show_nat k @ '', which implies that its rank should be at least ''
                 @ show_nat (Suc k) @ '', but is only '' @ show_nat (ndim a)
                 @ '' (its shape is '' @ show_shape (shape a) @ '')'')))"

definition stack_results :: "nat \<Rightarrow> ndarray list \<Rightarrow> error + ndarray" where
  "stack_results out rs =
     (case rs of
        [] \<Rightarrow> Inr (Arr [])
      | r # _ \<Rightarrow>
          if out \<le> ndim r then Inr (stack out rs)
          else Inl (ValueError ''vmap out_axes specification is out of bounds for the result''))"

definition vmap1 ::
  "(ndarray \<Rightarrow> error + ndarray) \<Rightarrow> nat option \<Rightarrow> nat \<Rightarrow> ndarray \<Rightarrow> error + ndarray" where
  "vmap1 f in_axes out_axes x =
     ebind (split_arg in_axes x) (\<lambda>xs.
       case xs of
         None \<Rightarrow> Inl (ValueError ''vmap must have at least one non-None value in in_axes'')
       | Some xs' \<Rightarrow> ebind (emap f xs') (stack_results out_axes))"

definition vmap2 ::
  "(ndarray \<Rightarrow> ndarray \<Rightarrow> error + ndarray) \<Rightarrow> nat option \<times> nat option \<Rightarrow> nat
     \<Rightarrow> ndarray \<Rightarrow> ndarray \<Rightarrow> error + ndarray" where
  "vmap2 f in_axes out_axes x y =
     ebind (split_arg (fst in_axes) x) (\<lambda>xs.
     ebind (split_arg (snd in_axes) y) (\<lambda>ys.
       case (xs, ys) of
         (None, None) \<Rightarrow>
           Inl (ValueError ''vmap must have at least one non-None value in in_axes'')
       | (Some xs', None) \<Rightarrow>
           ebind (emap (\<lambda>a. f a y) xs') (stack_results out_axes)
       | (None, Some ys') \<Rightarrow>
           ebind (emap (\<lambda>b. f x b) ys') (stack_results out_axes)
       | (Some xs', Some ys') \<Rightarrow>
           if length xs' \<noteq> length ys'
           then Inl (ValueError ''vmap got inconsistent sizes for array axes to be mapped'')
           else ebind (emap (\<lambda>(a, b). f a b) (zip xs' ys')) (stack_results out_axes)))"

text \<open>\<^verbatim>\<open>batched_dense = jax.vmap(dense_layer)\<close>: by default both axes are 0.\<close>

definition batched_dense :: "ndarray \<Rightarrow> error + ndarray" where
  "batched_dense = vmap1 dense_layer (Some 0) 0"

section \<open>Functions of two arguments\<close>

text \<open>
  The notebook defines \<^verbatim>\<open>func\<close> three times: \<^verbatim>\<open>x+y\<close>, \<^verbatim>\<open>x*y\<close> and \<^verbatim>\<open>jnp.sin(x)*y\<close>.
\<close>

definition func_add :: "ndarray \<Rightarrow> ndarray \<Rightarrow> error + ndarray" where
  "func_add x y = add x y"

definition func_mul :: "ndarray \<Rightarrow> ndarray \<Rightarrow> error + ndarray" where
  "func_mul x y = mul x y"

fun map_nd :: "(num \<Rightarrow> num) \<Rightarrow> ndarray \<Rightarrow> ndarray" where
  "map_nd g (Num v) = Num (g v)"
| "map_nd g (Arr xs) = Arr (map (map_nd g) xs)"

text \<open>
  The library's float32 sine is not part of the notebook; it is the parameter \<open>sn\<close>, a
  function on the float32 values.
\<close>

definition jnp_sin :: "(rat \<Rightarrow> rat) \<Rightarrow> ndarray \<Rightarrow> ndarray" where
  "jnp_sin sn a = map_nd (\<lambda>v. F (sn (to_f32 v))) a"

definition func_sin :: "(rat \<Rightarrow> rat) \<Rightarrow> ndarray \<Rightarrow> ndarray \<Rightarrow> error + ndarray" where
  "func_sin sn x y = mul (jnp_sin sn x) y"

text \<open>
  \<^verbatim>\<open>jnp.linspace(start, stop)\<close> gives \<open>num = 50\<close> points: the first \<open>num - 1\<close> interpolate
  between the end points in float32, and the last is \<open>stop\<close> itself.
\<close>

definition linspace_point :: "rat \<Rightarrow> rat \<Rightarrow> nat \<Rightarrow> nat \<Rightarrow> rat" where
  "linspace_point a b d i =
     (let step = rnd32 (of_nat i / of_nat d)
      in rnd32 (rnd32 (a * rnd32 (1 - step)) + rnd32 (b * step)))"

definition linspace :: "int \<Rightarrow> int \<Rightarrow> nat \<Rightarrow> ndarray" where
  "linspace start stop n =
     (let a = rnd32 (of_int start); b = rnd32 (of_int stop)
      in if n = 0 then Arr []
         else Arr (map (\<lambda>r. Num (F r)) (map (linspace_point a b (n - 1)) [0..<n - 1] @ [b])))"

definition x_range :: ndarray where
  "x_range = linspace (- 5) 5 50"

definition y_range :: ndarray where
  "y_range = linspace (- 2) 2 50"

text \<open>
  \<^verbatim>\<open>out = jax.vmap(jax.vmap(func, in_axes = (None,0)), in_axes = (0,None))(x_range,y_range)\<close>
\<close>

definition out_grid :: "(rat \<Rightarrow> rat) \<Rightarrow> error + ndarray" where
  "out_grid sn =
     vmap2 (vmap2 (func_sin sn) (None, Some 0) 0) (Some 0, None) 0 x_range y_range"

section \<open>The notebook's inputs and recorded outputs\<close>

text \<open>
  The three batched cells all record
  \<^verbatim>\<open>[[0.90000004, 1.53], [1.5000001, 2.6299999], [2.1000001, 3.7299998]]\<close>, and the first
  cell prints \<^verbatim>\<open>[0.90000004 1.53]\<close>: the float32 values these decimals denote.
\<close>

definition recorded_single :: ndarray where
  "recorded_single = jnp_array (LList [LFloat (90000004 / 100000000), LFloat (153 / 100)])"

definition recorded_batch :: ndarray where
  "recorded_batch =
     jnp_array (LList [LList [LFloat (90000004 / 100000000), LFloat (153 / 100)],
                       LList [LFloat (15000001 / 10000000), LFloat (26299999 / 10000000)],
                       LList [LFloat (21000001 / 10000000), LFloat (37299998 / 10000000)]])"

text \<open>The elements of an array in row-major order, and closeness within a tolerance.\<close>

fun flat :: "ndarray \<Rightarrow> num list" where
  "flat (Num v) = [v]"
| "flat (Arr xs) = concat (map flat xs)"

definition close_to :: "rat \<Rightarrow> ndarray \<Rightarrow> ndarray \<Rightarrow> bool" where
  "close_to tol a b =
     (shape a = shape b
      \<and> list_all (\<lambda>(u, v). \<bar>to_f32 u - to_f32 v\<bar> \<le> tol) (zip (flat a) (flat b)))"

definition x_batched :: ndarray where
  "x_batched = jnp_array (LList [LInt 1, LInt 2, LInt 3])"

definition y_batched :: ndarray where
  "y_batched = jnp_array (LList [LInt 4, LInt 5, LInt 6])"

text \<open>The next cell binds the same two names to arrays of shape (1,3) and (3,1).\<close>

definition x_batched_row :: ndarray where
  "x_batched_row = jnp_array (LList [LList [LInt 1, LInt 2, LInt 3]])"

definition y_batched_col :: ndarray where
  "y_batched_col = jnp_array (LList [LList [LInt 4], LList [LInt 5], LList [LInt 6]])"

definition out1 :: "error + ndarray" where
  "out1 = vmap2 func_add (Some 1, Some 0) 1 x_batched_row y_batched_col"

definition out2 :: "error + ndarray" where
  "out2 = vmap2 func_add (Some 1, Some 0) 0 x_batched_row y_batched_col"

text \<open>\<^verbatim>\<open>jax.vmap(func, in_axes = (None,0))(3.0,jnp.array([3,4,5]))\<close>\<close>

definition x_scalar :: ndarray where
  "x_scalar = jnp_array (LFloat 3)"

definition y_vector :: ndarray where
  "y_vector = jnp_array (LList [LInt 3, LInt 4, LInt 5])"

section \<open>Facts about the model\<close>

subsection \<open>Evaluating the rounding on numerals\<close>

lemma bitlen_Bit0: "bitlen (numeral (Num.Bit0 n)) = bitlen (numeral n) + 1"
  by (subst compute_bitlen) simp

lemma bitlen_Bit1: "bitlen (numeral (Num.Bit1 n)) = bitlen (numeral n) + 1"
  by (subst compute_bitlen) simp

lemma bitlen_One: "bitlen 1 = 1"
  by (subst compute_bitlen) simp

lemma floor_rat_numeral: "\<lfloor>numeral a / numeral b :: rat\<rfloor> = numeral a div numeral b"
  using floor_divide_of_int_eq [of "numeral a" "numeral b", where ?'a = rat] by simp

lemma floor_rat_neg_numeral:
  "\<lfloor>- (numeral a / numeral b) :: rat\<rfloor> = - numeral a div numeral b"
  using floor_divide_of_int_eq [of "- numeral a" "numeral b", where ?'a = rat] by simp

lemma ceiling_rat_numeral:
  "\<lceil>numeral a / numeral b :: rat\<rceil> = - (- numeral a div numeral b)"
  unfolding ceiling_def by (simp add: floor_rat_neg_numeral)

lemmas rnd_eval = rnd32_def rnd64_def round_bin_def ilog2_def pow2_def round_half_even_def
  Let_def bitlen_Bit0 bitlen_Bit1 bitlen_One floor_rat_numeral floor_rat_neg_numeral
  ceiling_rat_numeral

lemmas arr_eval = dot_def lax_dot_def dot_general_def ndim_def contract_def items_def
  add_def mul_def binop_def broadcast_shapes_def ebind_def add_num_def mul_num_def to_f32_def

lemmas vmap_eval = vmap1_def vmap2_def split_arg_def stack_results_def func_add_def
  func_mul_def

lemmas einsum_eval = einsum_def einsum_entry_def lookup_def scalar_of_def

subsection \<open>The values of the notebook's arrays\<close>

lemma inputs_single_value:
  "inputs_single = Arr [Num (F (9227469 / 8388608)), Num (F (5033165 / 4194304))]"
  by (simp add: inputs_single_def rnd_eval)

lemma recorded_single_value:
  "recorded_single = Arr [Num (F (15099495 / 16777216)), Num (F (6417285 / 4194304))]"
  by (simp add: recorded_single_def rnd_eval)

lemma inputs_value:
  "inputs = Arr [Arr [Num (F (9227469 / 8388608)), Num (F (5033165 / 4194304))],
                 Arr [Num (F (4404019 / 2097152)), Num (F (9227469 / 4194304))],
                 Arr [Num (F (6501171 / 2097152)), Num (F (13421773 / 4194304))]]"
  by (simp add: inputs_def rnd_eval)

lemma recorded_batch_value:
  "recorded_batch = Arr [Arr [Num (F (15099495 / 16777216)), Num (F (6417285 / 4194304))],
                         Arr [Num (F (12582913 / 8388608)), Num (F (11031019 / 4194304))],
                         Arr [Num (F (8808039 / 4194304)), Num (F (15644753 / 4194304))]]"
  by (simp add: recorded_batch_def rnd_eval)

lemma dense_layer_inputs_single: "dense_layer inputs_single = Inr recorded_single"
  by (simp add: dense_layer_def inputs_single_value recorded_single_value arr_eval rnd_eval)

lemma parse_ij_bj_bi: "parse_subscripts ''ij,bj->bi'' = Some (''ij'', ''bj'', ''bi'')"
  by (simp add: parse_subscripts_def)

subsection \<open>Batching on arrays of any elements\<close>

lemma emap_Inr: "(\<And>x. x \<in> set xs \<Longrightarrow> f x = Inr (g x)) \<Longrightarrow> emap f xs = Inr (map g xs)"
  by (induction xs) (simp_all add: ebind_def)

lemma ndim_Arr_pos: "0 < ndim (Arr xs)"
  by (cases xs) (simp_all add: ndim_def)

lemma stack_results_0: "stack_results 0 rs = Inr (Arr rs)"
  by (cases rs) (simp_all add: stack_results_def)

subsection \<open>Batching over the leading axis\<close>

lemma func_sin_scalar:
  "func_sin sn (Num a) (Num b) = Inr (Num (mul_num (F (sn (to_f32 a))) b))"
  by (simp add: func_sin_def jnp_sin_def mul_def binop_def broadcast_shapes_def)

lemma vmap2_inner:
  "vmap2 f (None, Some 0) 0 x (Arr ys) = ebind (emap (f x) ys) (\<lambda>rs. Inr (Arr rs))"
  by (simp add: vmap2_def split_arg_def ebind_def ndim_Arr_pos stack_results_0 cong: sum.case_cong)

lemma vmap2_outer:
  "vmap2 f (Some 0, None) 0 (Arr xs) y = ebind (emap (\<lambda>a. f a y) xs) (\<lambda>rs. Inr (Arr rs))"
  by (simp add: vmap2_def split_arg_def ebind_def ndim_Arr_pos stack_results_0 cong: sum.case_cong)

text \<open>The grid of a function of two scalars over two vectors, by two nested batchings.\<close>

lemma grid:
  "vmap2 (vmap2 (func_sin sn) (None, Some 0) 0) (Some 0, None) 0
      (Arr (map (\<lambda>r. Num (F r)) xs)) (Arr (map (\<lambda>r. Num (F r)) ys)) =
   Inr (Arr (map (\<lambda>x. Arr (map (\<lambda>y. Num (mul_num (F (sn x)) (F y))) ys)) xs))"
proof -
  have inner: "vmap2 (func_sin sn) (None, Some 0) 0 (Num (F x)) (Arr (map (\<lambda>r. Num (F r)) ys))
      = Inr (Arr (map (\<lambda>y. Num (mul_num (F (sn x)) (F y))) ys))" for x
  proof -
    have "emap (func_sin sn (Num (F x))) (map (\<lambda>r. Num (F r)) ys)
        = Inr (map (\<lambda>b. Num (mul_num (F (sn x)) (scalar_of b))) (map (\<lambda>r. Num (F r)) ys))"
      by (rule emap_Inr) (auto simp: func_sin_scalar scalar_of_def to_f32_def)
    then show ?thesis
      by (simp add: vmap2_inner ebind_def scalar_of_def comp_def)
  qed
  have "emap (\<lambda>a. vmap2 (func_sin sn) (None, Some 0) 0 a (Arr (map (\<lambda>r. Num (F r)) ys)))
          (map (\<lambda>r. Num (F r)) xs)
        = Inr (map (\<lambda>a. Arr (map (\<lambda>y. Num (mul_num (F (sn (to_f32 (scalar_of a)))) (F y))) ys))
                 (map (\<lambda>r. Num (F r)) xs))"
    by (rule emap_Inr) (auto simp: inner scalar_of_def to_f32_def)
  then show ?thesis
    by (simp add: vmap2_outer ebind_def scalar_of_def to_f32_def comp_def)
qed

subsection \<open>The points of a range\<close>

lemma linspace_form:
  assumes "0 < n"
  shows "\<exists>rs. length rs = n \<and> linspace a b n = Arr (map (\<lambda>r. Num (F r)) rs)"
proof -
  let ?rs = "map (linspace_point (rnd32 (of_int a)) (rnd32 (of_int b)) (n - 1)) [0..<n - 1]
               @ [rnd32 (of_int b)]"
  have "linspace a b n = Arr (map (\<lambda>r. Num (F r)) ?rs)"
    using assms unfolding linspace_def Let_def by simp
  moreover have "length ?rs = n"
    using assms by simp
  ultimately show ?thesis by blast
qed

lemma linspace_last: "0 < n \<Longrightarrow> get (linspace a b n) [n - 1] = Num (F (rnd32 (of_int b)))"
  by (simp add: linspace_def Let_def items_def nth_append)

lemma linspace_inner:
  "i < n - 1 \<Longrightarrow>
     get (linspace a b n) [i] = Num (F (linspace_point (rnd32 (of_int a)) (rnd32 (of_int b)) (n - 1) i))"
  by (auto simp add: linspace_def Let_def items_def nth_append)

lemma x_range_49: "get x_range [49] = Num (F 5)"
proof -
  have "rnd32 (of_int 5) = 5"
    by (simp add: rnd_eval)
  then show ?thesis
    using linspace_last [of 50 "- 5" 5] by (simp add: x_range_def)
qed

lemma y_range_1: "get y_range [1] = Num (F (- (1005777 / 524288)))"
proof -
  have "linspace_point (rnd32 (of_int (- 2))) (rnd32 (of_int 2)) 49 1 = - (1005777 / 524288)"
    by (simp add: linspace_point_def rnd_eval)
  then show ?thesis
    using linspace_inner [of 1 50 "- 2" 2] by (simp add: y_range_def)
qed

lemma mul_5_y1: "mul_num (F 5) (F (- (1005777 / 524288))) = F (- (5028885 / 524288))"
  by (simp add: mul_num_def to_f32_def rnd_eval)

section \<open>The unbatched layer\<close>

text \<open>
  C3. On the single input \<^verbatim>\<open>[1.1, 1.2]\<close> the dense layer returns the float32 pair the
  notebook prints, \<^verbatim>\<open>[0.90000004 1.53]\<close>. Each entry is within \<open>10^-6\<close> of the exact
  value of \<open>W x + b\<close>, which is \<open>[0.9, 1.53]\<close>.
\<close>

theorem dense_layer_single:
  "dense_layer inputs_single = Inr recorded_single
   \<and> close_to (1 / 10 ^ 6) recorded_single (Arr [Num (F (9 / 10)), Num (F (153 / 100))])
   \<and> (2 / 10) * (11 / 10) + (4 / 10) * (12 / 10) + 2 / 10 = (9 / 10 :: rat)
   \<and> (9 / 10) * (11 / 10) + (2 / 10) * (12 / 10) + 3 / 10 = (153 / 100 :: rat)"
proof (intro conjI)
  show "dense_layer inputs_single = Inr recorded_single"
    by (rule dense_layer_inputs_single)
  show "close_to (1 / 10 ^ 6) recorded_single (Arr [Num (F (9 / 10)), Num (F (153 / 100))])"
    by (simp add: recorded_single_value close_to_def to_f32_def)
qed simp_all

text \<open>
  C2. On the batch of three inputs the dense layer does not return: the dot product of
  a (2,2) with a (3,2) array raises a TypeError. The one \<^verbatim>\<open>try\<close> of the notebook
  catches it and prints its message.
\<close>

theorem dense_layer_batch_fails:
  "dense_layer inputs = Inl (TypeError ''Incompatible shapes for dot: got (2, 2) and (3, 2).'')
   \<and> try_dense_layer = Inr [''Incompatible shapes for dot: got (2, 2) and (3, 2).'']"
proof -
  have "dense_layer inputs
          = Inl (TypeError ''Incompatible shapes for dot: got (2, 2) and (3, 2).'')"
    by (simp add: dense_layer_def inputs_value arr_eval rnd_eval show_shape_def show_nat.simps)
  then show ?thesis
    by (simp add: try_dense_layer_def)
qed

text \<open>
  C9. The index summation \<^verbatim>\<open>'ij,bj->bi'\<close> wants two axes: on the single input
  \<^verbatim>\<open>[1.1, 1.2]\<close>, and on every vector, it raises, where the dense layer and the
  transposed product return the recorded pair.
\<close>

theorem einsum_layer_unbatched_fails:
  "(\<exists>m. einsum_layer inputs_single = Inl (ValueError m))
   \<and> (\<forall>vs. \<exists>m. einsum_layer (Arr (map Num vs)) = Inl (ValueError m))
   \<and> dense_layer inputs_single = Inr recorded_single
   \<and> transpose_layer inputs_single = Inr recorded_single"
proof -
  have v: "\<exists>m. einsum_layer (Arr (map Num vs)) = Inl (ValueError m)" for vs
  proof -
    have "ndim (Arr (map Num vs)) = 1"
      by (cases vs) (simp_all add: ndim_def)
    then show ?thesis
      by (simp add: einsum_layer_def einsum_def parse_ij_bj_bi ebind_def ndim_def)
  qed
  have "\<exists>m. einsum_layer inputs_single = Inl (ValueError m)"
    using v [of "[F (9227469 / 8388608), F (5033165 / 4194304)]"]
    by (simp add: inputs_single_value)
  moreover have "transpose_layer inputs_single = Inr recorded_single"
    by (simp add: transpose_layer_def inputs_single_value recorded_single_value arr_eval rnd_eval)
  ultimately show ?thesis
    using v dense_layer_inputs_single by blast
qed

section \<open>The three batched formulations\<close>

text \<open>
  C1. On the batch \<^verbatim>\<open>[[1.1,1.2],[2.1,2.2],[3.1,3.2]]\<close> the index summation, the
  transposed product and the batched dense layer all return the 3x2 array the notebook
  records, and its rows are the dense layer's results on the three inputs, one by one.
\<close>

theorem batched_formulations_agree:
  "einsum_layer inputs = Inr recorded_batch
   \<and> transpose_layer inputs = Inr recorded_batch
   \<and> batched_dense inputs = Inr recorded_batch
   \<and> shape recorded_batch = [3, 2]
   \<and> length (items inputs) = 3
   \<and> map dense_layer (items inputs) = map Inr (items recorded_batch)"
proof (intro conjI)
  show "einsum_layer inputs = Inr recorded_batch"
    by (simp add: einsum_layer_def inputs_value recorded_batch_value parse_ij_bj_bi
        einsum_eval arr_eval rnd_eval upt_conv_Cons)
  show "transpose_layer inputs = Inr recorded_batch"
    by (simp add: transpose_layer_def inputs_value recorded_batch_value arr_eval rnd_eval)
  show "batched_dense inputs = Inr recorded_batch"
    by (simp add: batched_dense_def dense_layer_def inputs_value recorded_batch_value
        vmap_eval arr_eval rnd_eval)
  show "shape recorded_batch = [3, 2]"
    by (simp add: recorded_batch_value)
  show "length (items inputs) = 3"
    by (simp add: inputs_value items_def)
  show "map dense_layer (items inputs) = map Inr (items recorded_batch)"
    by (simp add: dense_layer_def inputs_value recorded_batch_value arr_eval rnd_eval)
qed

section \<open>Batching functions of two arguments\<close>

text \<open>
  C5. Addition batched over the leading axis of both arguments: on \<^verbatim>\<open>[1,2,3]\<close> and
  \<^verbatim>\<open>[4,5,6]\<close> the result is \<^verbatim>\<open>[5,7,9]\<close>, and its entries are the sums of the entries
  at the same position.
\<close>

theorem vmap_add_lockstep:
  "vmap2 func_add (Some 0, Some 0) 0 x_batched y_batched
     = Inr (jnp_array (LList [LInt 5, LInt 7, LInt 9]))
   \<and> map (\<lambda>(a, b). func_add a b) (zip (items x_batched) (items y_batched))
     = map Inr (items (jnp_array (LList [LInt 5, LInt 7, LInt 9])))"
  by (simp add: x_batched_def y_batched_def vmap_eval arr_eval)

text \<open>
  C6. With \<^verbatim>\<open>x\<close> of shape (1,3) batched along axis 1 and \<^verbatim>\<open>y\<close> of shape (3,1) batched
  along axis 0, the result is \<^verbatim>\<open>[[5,7,9]]\<close> of shape (1,3) for \<^verbatim>\<open>out_axes=1\<close>, and
  \<^verbatim>\<open>[[5],[7],[9]]\<close> of shape (3,1) for \<^verbatim>\<open>out_axes=0\<close>.
\<close>

theorem vmap_add_axes:
  "out1 = Inr (jnp_array (LList [LList [LInt 5, LInt 7, LInt 9]]))
   \<and> shape (jnp_array (LList [LList [LInt 5, LInt 7, LInt 9]])) = [1, 3]
   \<and> out2 = Inr (jnp_array (LList [LList [LInt 5], LList [LInt 7], LList [LInt 9]]))
   \<and> shape (jnp_array (LList [LList [LInt 5], LList [LInt 7], LList [LInt 9]])) = [3, 1]"
  by (simp add: out1_def out2_def x_batched_row_def y_batched_col_def vmap_eval arr_eval)

text \<open>
  C7. Multiplication with the first argument unbatched: on the scalar \<^verbatim>\<open>3.0\<close> and
  \<^verbatim>\<open>[3,4,5]\<close> the result is the float array \<^verbatim>\<open>[9., 12., 15.]\<close>, and its entries are
  the products of the whole first argument with each entry of the second.
\<close>

theorem vmap_mul_unbatched:
  "vmap2 func_mul (None, Some 0) 0 x_scalar y_vector
     = Inr (jnp_array (LList [LFloat 9, LFloat 12, LFloat 15]))
   \<and> map (func_mul x_scalar) (items y_vector)
     = map Inr (items (jnp_array (LList [LFloat 9, LFloat 12, LFloat 15])))"
  by (simp add: x_scalar_def y_vector_def vmap_eval arr_eval rnd_eval)

section \<open>The grid\<close>

text \<open>
  C4. The two nested batchings of \<^verbatim>\<open>sin(x)*y\<close> over the two ranges of 50 points return
  a 50x50 array whose entry \<open>(i, j)\<close> is the function's result on \<^verbatim>\<open>x_range[i]\<close> and
  \<^verbatim>\<open>y_range[j]\<close>, whatever the library's sine is.
\<close>

theorem nested_vmap_grid:
  "shape x_range = [50] \<and> shape y_range = [50] \<and>
   (\<exists>g. out_grid sn = Inr g \<and> shape g = [50, 50] \<and>
     (\<forall>i<50. \<forall>j<50. func_sin sn (get x_range [i]) (get y_range [j]) = Inr (get g [i, j])))"
proof -
  obtain xs where xs: "length xs = 50" "x_range = Arr (map (\<lambda>r. Num (F r)) xs)"
    using linspace_form [of 50 "- 5" 5] unfolding x_range_def by auto
  obtain ys where ys: "length ys = 50" "y_range = Arr (map (\<lambda>r. Num (F r)) ys)"
    using linspace_form [of 50 "- 2" 2] unfolding y_range_def by auto
  let ?g = "Arr (map (\<lambda>x. Arr (map (\<lambda>y. Num (mul_num (F (sn x)) (F y))) ys)) xs)"
  have g: "out_grid sn = Inr ?g"
    unfolding out_grid_def xs(2) ys(2) by (rule grid)
  obtain x xs' where x: "xs = x # xs'" using xs(1) by (cases xs) auto
  obtain y ys' where y: "ys = y # ys'" using ys(1) by (cases ys) auto
  have s: "shape ?g = [50, 50]"
    using xs(1) ys(1) unfolding x y by simp
  have r: "shape x_range = [50]" "shape y_range = [50]"
    using xs(1) ys(1) unfolding xs(2) ys(2) x y by simp_all
  have e: "func_sin sn (get x_range [i]) (get y_range [j]) = Inr (get ?g [i, j])"
    if "i < 50" "j < 50" for i j
    using that xs(1) ys(1) unfolding xs(2) ys(2)
    by (simp add: items_def func_sin_scalar to_f32_def)
  show ?thesis using g s e r by blast
qed

text \<open>
  With the identity in the place of the sine, the entry at \<open>(49, 1)\<close> is the float32
  product of \<open>x_range[49] = 5\<close> and \<open>y_range[1]\<close>.
\<close>

theorem nested_vmap_grid_witness:
  "(49::nat) < 50 \<and> (1::nat) < 50 \<and>
   (\<exists>g. out_grid (\<lambda>x. x) = Inr g \<and> shape g = [50, 50]
        \<and> get g [49, 1] = Num (F (- (5028885 / 524288))))"
proof -
  obtain g where g: "out_grid (\<lambda>x. x) = Inr g" "shape g = [50, 50]"
    "\<forall>i<50. \<forall>j<50. func_sin (\<lambda>x. x) (get x_range [i]) (get y_range [j]) = Inr (get g [i, j])"
    using nested_vmap_grid [of "\<lambda>x. x"] by blast
  have "func_sin (\<lambda>x. x) (get x_range [49]) (get y_range [1]) = Inr (get g [49, 1])"
    using g(3) by simp
  then have "get g [49, 1] = Num (F (- (5028885 / 524288)))"
    unfolding x_range_49 y_range_1 func_sin_scalar by (simp add: to_f32_def mul_5_y1)
  then show ?thesis using g(1,2) by simp
qed

end
